theory Spec2Isabelle
  imports
    Complex_Main
    "HOL-Library.Multiset"
    "HOL-Library.Sublist"
    "HOL-Library.Char_ord"
    "HOL-Library.List_Lexorder"
begin

section \<open>Data model\<close>

text \<open>
  Both dashboards (\<^verbatim>\<open>ecommerce-dash-pdf.py\<close> and \<^verbatim>\<open>ecommerce-dashboard.py\<close>) work on one
  pandas DataFrame \<^verbatim>\<open>df\<close>. A frame is its list of column names and its list of rows; a row
  maps a column name to a cell. A cell is a string, a number, a timestamp or the missing
  value (\<^verbatim>\<open>NaN\<close>, \<^verbatim>\<open>NaT\<close>).

  Modelling decisions, stated once:
  \<^item> numbers are exact rationals: the rounding of binary64 arithmetic is not modelled;
  \<^item> a timestamp is pandas' count of nanoseconds since the epoch, a \<^verbatim>\<open>datetime.date\<close> is a
    count of days since the epoch;
  \<^item> the frame is the one \<^verbatim>\<open>load_data\<close> returns, so the date column already went through
    \<^verbatim>\<open>pd.to_datetime\<close> and holds timestamps or \<^verbatim>\<open>NaT\<close>; any other cell met in a date position
    is read as \<^verbatim>\<open>NaT\<close>;
  \<^item> category values are text; any other cell met in a category position is read as missing;
  \<^item> a string is a list of 8-bit characters.
\<close>

type_synonym timestamp = int
type_synonym date = int

datatype cell = Str string | Num rat | Time timestamp | NA

type_synonym row = "string \<rightharpoonup> cell"

record frame =
  columns :: "string list"
  rows :: "row list"

text \<open>The two handlers at the bottom of the script: \<^verbatim>\<open>except FileNotFoundError\<close> and
  \<^verbatim>\<open>except Exception\<close>.\<close>

datatype error = FileNotFoundError | Exception

text \<open>A float result that may be \<^verbatim>\<open>nan\<close>.\<close>

datatype scalar = Val rat | NaN

definition cell_at :: "row \<Rightarrow> string \<Rightarrow> cell" where
  "cell_at r c = (case r c of Some v \<Rightarrow> v | None \<Rightarrow> NA)"

text \<open>\<^verbatim>\<open>df[c]\<close>: the column as a list of cells.\<close>

definition col :: "frame \<Rightarrow> string \<Rightarrow> cell list" where
  "col df c = map (\<lambda>r. cell_at r c) (rows df)"

text \<open>\<^verbatim>\<open>len(df)\<close>.\<close>

definition len :: "frame \<Rightarrow> nat" where
  "len df = length (rows df)"

section \<open>Column roles\<close>

text \<open>
  \<^verbatim>\<open>for col in [...]: if col in df.columns: x = col; break\<close> with \<^verbatim>\<open>x = None\<close> before the loop.
\<close>

fun first_present :: "string list \<Rightarrow> string list \<Rightarrow> string option" where
  "first_present [] cols = None"
| "first_present (c # cs) cols = (if c \<in> set cols then Some c else first_present cs cols)"

definition date_col_of :: "frame \<Rightarrow> string option" where
  "date_col_of df = first_present [''Date'', ''Order Date''] (columns df)"

definition category_col_of :: "frame \<Rightarrow> string option" where
  "category_col_of df =
     first_present [''Category'', ''Product Category'', ''Item Category''] (columns df)"

definition amount_col_of :: "frame \<Rightarrow> string option" where
  "amount_col_of df =
     first_present [''Amount'', ''Sales'', ''Total'', ''Revenue'', ''Price''] (columns df)"

definition quantity_col_of :: "frame \<Rightarrow> string option" where
  "quantity_col_of df = first_present [''Quantity'', ''Qty'', ''Units''] (columns df)"

section \<open>Formatting\<close>

definition digit_char :: "nat \<Rightarrow> char" where
  "digit_char d = ''0123456789'' ! (d mod 10)"

fun dec_digits :: "nat \<Rightarrow> string" where
  "dec_digits n = (if n < 10 then [digit_char n] else dec_digits (n div 10) @ [digit_char n])"

declare dec_digits.simps [simp del]

text \<open>The grouping of Python's \<^verbatim>\<open>,\<close> format option, on the digits written last digit first.\<close>

fun group3 :: "string \<Rightarrow> string" where
  "group3 (a # b # c # d # ds) = a # b # c # CHR '','' # group3 (d # ds)"
| "group3 ds = ds"

definition thousands :: "string \<Rightarrow> string" where
  "thousands ds = rev (group3 (rev ds))"

text \<open>\<^verbatim>\<open>f"{n:,}"\<close> for a count \<^verbatim>\<open>n\<close>, and \<^verbatim>\<open>str(n)\<close>.\<close>

definition fmt_int :: "nat \<Rightarrow> string" where
  "fmt_int n = thousands (dec_digits n)"

definition str_nat :: "nat \<Rightarrow> string" where
  "str_nat n = dec_digits n"

text \<open>Rounding to the nearest integer, ties to the even one, of a non-negative number.\<close>

definition round_half_even :: "rat \<Rightarrow> nat" where
  "round_half_even q =
     (let f = nat \<lfloor>q\<rfloor>; r = q - of_int \<lfloor>q\<rfloor>
      in if r < 1 / 2 then f else if 1 / 2 < r then f + 1 else if even f then f else f + 1)"

fun zero_pad :: "nat \<Rightarrow> string \<Rightarrow> string" where
  "zero_pad w s = replicate (w - length s) CHR ''0'' @ s"

text \<open>
  The fixed-point presentation \<^verbatim>\<open>f"{x:,.df}"\<close> (with \<open>sep\<close>) or \<^verbatim>\<open>f"{x:.df}"\<close> (without):
  sign, integer part, and \<open>d\<close> decimals when \<open>d > 0\<close>.
\<close>

definition fmt_fixed :: "bool \<Rightarrow> nat \<Rightarrow> rat \<Rightarrow> string" where
  "fmt_fixed sep d x =
     (let m = round_half_even (\<bar>x\<bar> * 10 ^ d);
          ip = dec_digits (m div 10 ^ d);
          fp = zero_pad d (dec_digits (m mod 10 ^ d))
      in (if x < 0 then ''-'' else '''') @ (if sep then thousands ip else ip)
         @ (if d = 0 then '''' else ''.'' @ fp))"

text \<open>\<^verbatim>\<open>f"${x:,.2f}"\<close>; Python writes a \<^verbatim>\<open>nan\<close> as \<^verbatim>\<open>nan\<close> under every float format.\<close>

fun fmt_money :: "scalar \<Rightarrow> string" where
  "fmt_money (Val x) = ''$'' @ fmt_fixed True 2 x"
| "fmt_money NaN = ''$nan''"







section \<open>Dates\<close>

definition ns_per_day :: int where
  "ns_per_day = 86400000000000"

text \<open>\<^verbatim>\<open>pd.to_datetime(d)\<close> of a \<^verbatim>\<open>datetime.date\<close>: the timestamp of that day's midnight.\<close>

definition to_datetime :: "date \<Rightarrow> timestamp" where
  "to_datetime d = d * ns_per_day"

text \<open>\<^verbatim>\<open>.dt.date\<close>: the calendar day of a timestamp, its time of day cut off.\<close>

definition dt_date :: "timestamp \<Rightarrow> date" where
  "dt_date t = t div ns_per_day"

text \<open>Year, month and day of a day count (proleptic Gregorian calendar, day 0 = 1970-01-01).\<close>

definition civil :: "date \<Rightarrow> int \<times> int \<times> int" where
  "civil d =
     (let z = d + 719468;
          era = z div 146097;
          doe = z mod 146097;
          yoe = (doe - doe div 1460 + doe div 36524 - doe div 146096) div 365;
          doy = doe - (365 * yoe + yoe div 4 - yoe div 100);
          mp = (5 * doy + 2) div 153;
          dd = doy - (153 * mp + 2) div 5 + 1;
          m = (if mp < 10 then mp + 3 else mp - 9);
          y = yoe + era * 400 + (if m \<le> 2 then 1 else 0)
      in (y, m, dd))"

text \<open>\<^verbatim>\<open>str(d)\<close> of a \<^verbatim>\<open>datetime.date\<close>, and the text of a monthly period (\<^verbatim>\<open>to_period('M').astype(str)\<close>).\<close>

definition iso_month :: "date \<Rightarrow> string" where
  "iso_month d =
     (case civil d of (y, m, dd) \<Rightarrow>
        zero_pad 4 (dec_digits (nat y)) @ ''-'' @ zero_pad 2 (dec_digits (nat m)))"

definition iso_date :: "date \<Rightarrow> string" where
  "iso_date d =
     (case civil d of (y, m, dd) \<Rightarrow> iso_month d @ ''-'' @ zero_pad 2 (dec_digits (nat dd)))"

section \<open>Filters (\<^verbatim>\<open>ecommerce-dash-pdf.py\<close>, lines 418 to 455)\<close>

text \<open>\<^verbatim>\<open>df[mask]\<close>: a new frame with the rows the mask keeps; the columns are the same.\<close>

definition select :: "(row \<Rightarrow> bool) \<Rightarrow> frame \<Rightarrow> frame" where
  "select p df = df\<lparr>rows := filter p (rows df)\<rparr>"

text \<open>
  One entry of the mask \<^verbatim>\<open>(df[date_col] >= lo) & (df[date_col] <= hi)\<close>. Every comparison with
  \<^verbatim>\<open>NaT\<close> is false.
\<close>

fun between :: "timestamp \<Rightarrow> timestamp \<Rightarrow> cell \<Rightarrow> bool" where
  "between lo hi (Time t) = (lo \<le> t \<and> t \<le> hi)"
| "between lo hi c = False"

text \<open>
  The date filter. \<open>date_range\<close> is what the date picker returned: a tuple of zero, one or two
  dates. The second component is \<^verbatim>\<open>filter_info\<close>, empty before this step.
\<close>

definition date_filter :: "date list \<Rightarrow> frame \<Rightarrow> frame \<times> (string \<rightharpoonup> string)" where
  "date_filter date_range df =
     (case date_col_of df of
        None \<Rightarrow> (df, Map.empty)
      | Some date_col \<Rightarrow>
          if length date_range = 2
          then (select (\<lambda>r. between (to_datetime (date_range ! 0)) (to_datetime (date_range ! 1))
                               (cell_at r date_col)) df,
                [''date_range'' \<mapsto> iso_date (date_range ! 0) @ '' to '' @ iso_date (date_range ! 1)])
          else (df, [''date_range'' \<mapsto> ''All Dates'']))"

fun is_text :: "cell \<Rightarrow> bool" where
  "is_text (Str s) = True"
| "is_text c = False"

text \<open>
  \<^verbatim>\<open>sorted(df[category_col].unique().tolist())\<close> builds the options of the category selector.
  Python's \<^verbatim>\<open>sorted\<close> raises \<^verbatim>\<open>TypeError\<close> when it has to compare a string with a float, which a
  column holding both text and missing values makes it do.
\<close>

definition py_sortable :: "cell list \<Rightarrow> bool" where
  "py_sortable cs = (\<not> (list_ex is_text cs \<and> list_ex (\<lambda>c. \<not> is_text c) cs))"

text \<open>
  The category filter. \<open>selected_category\<close> is what the selector returned. The mask
  \<^verbatim>\<open>df[category_col] == selected_category\<close> is exact equality with the selected text.
\<close>

definition category_filter ::
  "string \<Rightarrow> frame \<times> (string \<rightharpoonup> string) \<Rightarrow> error + frame \<times> (string \<rightharpoonup> string)" where
  "category_filter selected_category st =
     (case st of (df, filter_info) \<Rightarrow>
        (case category_col_of df of
           None \<Rightarrow> Inr (df, filter_info)
         | Some category_col \<Rightarrow>
             if \<not> py_sortable (col df category_col) then Inl Exception
             else Inr (if selected_category \<noteq> ''All''
                       then select (\<lambda>r. cell_at r category_col = Str selected_category) df
                       else df,
                       filter_info(''category'' \<mapsto> selected_category))))"

text \<open>Both filters, then \<^verbatim>\<open>filter_info['total_records'] = f"{len(df):,}"\<close>.\<close>

definition apply_filters ::
  "date list \<Rightarrow> string \<Rightarrow> frame \<Rightarrow> error + frame \<times> (string \<rightharpoonup> string)" where
  "apply_filters date_range selected_category df =
     (case category_filter selected_category (date_filter date_range df) of
        Inl e \<Rightarrow> Inl e
      | Inr (df', filter_info) \<Rightarrow>
          Inr (df', filter_info(''total_records'' \<mapsto> fmt_int (len df'))))"

section \<open>Key metrics (\<^verbatim>\<open>ecommerce-dash-pdf.py\<close>, lines 462 to 492)\<close>

fun is_number :: "cell \<Rightarrow> bool" where
  "is_number (Num x) = True"
| "is_number NA = True"
| "is_number c = False"

fun number_of :: "cell \<Rightarrow> rat option" where
  "number_of (Num x) = Some x"
| "number_of c = None"

text \<open>The values of a column that pandas' reductions see: missing values are skipped.\<close>

definition dropna :: "cell list \<Rightarrow> rat list" where
  "dropna cs = List.map_filter number_of cs"

text \<open>
  \<^verbatim>\<open>Series.sum()\<close> and \<^verbatim>\<open>Series.mean()\<close>. The mean of no values is \<^verbatim>\<open>nan\<close>; pandas raises nothing.
\<close>

definition series_sum :: "cell list \<Rightarrow> rat" where
  "series_sum cs = sum_list (dropna cs)"

definition series_mean :: "cell list \<Rightarrow> scalar" where
  "series_mean cs =
     (if dropna cs = [] then NaN else Val (sum_list (dropna cs) / of_nat (length (dropna cs))))"

text \<open>
  A column with a string or a timestamp in it is not numeric: summing, averaging or formatting
  it with a float format raises, and the exception reaches the handler at the bottom of the
  script.
\<close>

definition numeric :: "cell list \<Rightarrow> bool" where
  "numeric cs = list_all is_number cs"

definition metrics_data :: "frame \<Rightarrow> error + (string \<rightharpoonup> string)" where
  "metrics_data df =
     (let m0 = Map.empty;
          r1 = (case amount_col_of df of
                  None \<Rightarrow> Inr m0
                | Some amount_col \<Rightarrow>
                    if \<not> numeric (col df amount_col) then Inl Exception
                    else Inr (m0(''total_sales'' \<mapsto> fmt_money (Val (series_sum (col df amount_col))),
                                 ''avg_order_value'' \<mapsto> fmt_money (series_mean (col df amount_col)))))
      in case r1 of
           Inl e \<Rightarrow> Inl e
         | Inr m1 \<Rightarrow>
             (let m2 = m1(''total_orders'' \<mapsto> fmt_int (len df))
              in case quantity_col_of df of
                   None \<Rightarrow> Inr (m2(''total_units'' \<mapsto> ''N/A''))
                 | Some quantity_col \<Rightarrow>
                     if \<not> numeric (col df quantity_col) then Inl Exception
                     else Inr (m2(''total_units'' \<mapsto>
                                    fmt_fixed True 0 (series_sum (col df quantity_col))))))"

section \<open>Grouping and sorting\<close>

text \<open>
  \<^verbatim>\<open>df.groupby(key)[amount_col].sum()\<close>: one entry per distinct key, ordered by key (pandas
  sorts the group keys); rows whose key is missing are dropped; each group's sum skips
  missing amounts. Strings are ordered as Python orders them, character by character.
\<close>

definition groupby_sum ::
  "(row \<Rightarrow> 'k::linorder option) \<Rightarrow> string \<Rightarrow> frame \<Rightarrow> ('k \<times> rat) list" where
  "groupby_sum key amount_col df =
     map (\<lambda>k. (k, series_sum (col (select (\<lambda>r. key r = Some k) df) amount_col)))
       (sort (remdups (List.map_filter key (rows df))))"

text \<open>The keys: a text column, and the calendar day of a timestamp column.\<close>

definition text_key :: "string \<Rightarrow> row \<Rightarrow> string option" where
  "text_key c r = (case cell_at r c of Str s \<Rightarrow> Some s | _ \<Rightarrow> None)"

definition day_key :: "string \<Rightarrow> row \<Rightarrow> date option" where
  "day_key c r = (case cell_at r c of Time t \<Rightarrow> Some (dt_date t) | _ \<Rightarrow> None)"

text \<open>
  \<^verbatim>\<open>Series.sort_values(ascending=...)\<close>, with the default \<^verbatim>\<open>kind\<close>. pandas (\<^verbatim>\<open>nargsort\<close>) sorts the
  positions with numpy's \<^verbatim>\<open>argsort\<close>; for descending order it reverses the values, sorts
  ascending and reverses the result. What the sort does with equal values is the library's
  business: pandas promises an order-keeping sort only for the kinds \<^verbatim>\<open>mergesort\<close> and
  \<^verbatim>\<open>stable\<close>, and the script asks for neither. The model takes the order-keeping sort, an
  insertion sort, which is what numpy's default kind does on arrays of up to 16 values;
  every statement below about the order of equal sums rests on this.
\<close>

definition sort_values :: "bool \<Rightarrow> ('k \<times> rat) list \<Rightarrow> ('k \<times> rat) list" where
  "sort_values ascending s =
     (if ascending then sort_key snd s else rev (sort_key snd (rev s)))"

definition head :: "nat \<Rightarrow> 'a list \<Rightarrow> 'a list" where
  "head n xs = take n xs"

definition tail :: "nat \<Rightarrow> 'a list \<Rightarrow> 'a list" where
  "tail n xs = drop (length xs - n) xs"

text \<open>
  \<^verbatim>\<open>df.groupby(category_col)[amount_col].sum().sort_values(ascending=False).head(10)\<close>:
  line 515 and line 341 of \<^verbatim>\<open>ecommerce-dash-pdf.py\<close>, line 120 of \<^verbatim>\<open>ecommerce-dashboard.py\<close>.
\<close>

definition top_categories :: "frame \<Rightarrow> string \<Rightarrow> string \<Rightarrow> error + (string \<times> rat) list" where
  "top_categories df category_col amount_col =
     (if \<not> numeric (col df amount_col) then Inl Exception
      else Inr (head 10 (sort_values False (groupby_sum (text_key category_col) amount_col df))))"

section \<open>The \<^verbatim>\<open>Month\<close> column\<close>

fun month_text :: "cell \<Rightarrow> cell" where
  "month_text (Time t) = Str (iso_month (dt_date t))"
| "month_text c = Str ''NaT''"

text \<open>
  \<^verbatim>\<open>df['Month'] = df[date_col].dt.to_period('M').astype(str)\<close>: the frame gets a column
  \<^verbatim>\<open>Month\<close>, appended when there was none and overwritten otherwise.
\<close>

definition assign_month :: "string \<Rightarrow> frame \<Rightarrow> frame" where
  "assign_month date_col df =
     \<lparr>columns = (if ''Month'' \<in> set (columns df) then columns df else columns df @ [''Month'']),
      rows = map (\<lambda>r. r(''Month'' \<mapsto> month_text (cell_at r date_col))) (rows df)\<rparr>"

section \<open>Charts of the report (\<^verbatim>\<open>ecommerce-dash-pdf.py\<close>, lines 29 to 113)\<close>

text \<open>
  Each function returns an image buffer; the model keeps the data the image is drawn from.
  Drawing is matplotlib's work and is not modelled.
\<close>

datatype chart =
    SalesTrend "(date \<times> rat) list"
  | TopCategories "(string \<times> rat) list"
  | Distribution "cell list"
  | MonthlySales "(string \<times> rat) list"

definition create_sales_trend_chart :: "frame \<Rightarrow> string \<Rightarrow> string \<Rightarrow> error + chart" where
  "create_sales_trend_chart df date_col amount_col =
     (if \<not> numeric (col df amount_col) then Inl Exception
      else Inr (SalesTrend (groupby_sum (day_key date_col) amount_col df)))"

definition create_top_categories_chart :: "frame \<Rightarrow> string \<Rightarrow> string \<Rightarrow> error + chart" where
  "create_top_categories_chart df category_col amount_col =
     (if \<not> numeric (col df amount_col) then Inl Exception
      else Inr (TopCategories
             (tail 10 (sort_values True (groupby_sum (text_key category_col) amount_col df)))))"

definition create_distribution_chart :: "frame \<Rightarrow> string \<Rightarrow> error + chart" where
  "create_distribution_chart df amount_col =
     (if \<not> numeric (col df amount_col) then Inl Exception
      else Inr (Distribution (col df amount_col)))"

text \<open>This one works on a copy (\<^verbatim>\<open>df_temp = df.copy()\<close>): the caller's frame stays as it was.\<close>

definition create_monthly_chart :: "frame \<Rightarrow> string \<Rightarrow> string \<Rightarrow> error + chart" where
  "create_monthly_chart df date_col amount_col =
     (let df_temp = assign_month date_col df
      in if \<not> numeric (col df_temp amount_col) then Inl Exception
         else Inr (MonthlySales (groupby_sum (text_key ''Month'') amount_col df_temp)))"

section \<open>The report (\<^verbatim>\<open>create_branded_pdf_report\<close>, lines 116 to 398)\<close>

text \<open>
  The report is the list \<^verbatim>\<open>elements\<close> handed to \<^verbatim>\<open>doc.build\<close>. Colours, fonts, column widths
  and table styles are left out. The two long fixed texts are constructors of their own.
  Lengths are in inches.
\<close>

datatype style = BrandTitle | BrandSubtitle | SectionHeading | Normal | Footer

datatype markup = Lit string | AssumptionsText | FooterText string

datatype tcell = Txt string | Par style markup

datatype flowable =
    Spacer rat
  | Paragraph style markup
  | Table "tcell list list"
  | Image_buf chart rat rat
  | PageBreak

text \<open>What \<^verbatim>\<open>datetime.now()\<close> gave: the formatted time of the cover and the year of the footer.\<close>

record clock =
  generated :: string
  year :: string

text \<open>\<^verbatim>\<open>d.get(k, default)\<close>.\<close>

definition get :: "(string \<rightharpoonup> 'v) \<Rightarrow> string \<Rightarrow> 'v \<Rightarrow> 'v" where
  "get d k dflt = (case d k of Some v \<Rightarrow> v | None \<Rightarrow> dflt)"

text \<open>Line 347.\<close>

definition percentage :: "rat \<Rightarrow> rat \<Rightarrow> rat" where
  "percentage total_revenue revenue =
     (if total_revenue > 0 then revenue / total_revenue * 100 else 0)"

text \<open>Lines 343 to 353: the rows of the detail table.\<close>

definition category_data :: "(string \<times> rat) list \<Rightarrow> string list list" where
  "category_data tc =
     (let total_revenue = sum_list (map snd tc)
      in [''Rank'', ''Category'', ''Revenue'', ''% of Total''] #
         map (\<lambda>(idx, category, revenue).
                [str_nat idx, take 40 category, fmt_money (Val revenue),
                 fmt_fixed False 1 (percentage total_revenue revenue) @ ''%''])
           (zip [1 ..< Suc (length tc)] tc))"

definition heading :: "string \<Rightarrow> flowable" where
  "heading s = Paragraph SectionHeading (Lit s)"

text \<open>
  \<^verbatim>\<open>if k in charts_data and charts_data[k]\<close>: a buffer is always true, so the test is whether
  the key is there.
\<close>

definition image_of ::
  "(string \<rightharpoonup> chart) \<Rightarrow> string \<Rightarrow> rat \<Rightarrow> rat \<Rightarrow> flowable list \<Rightarrow> flowable list" where
  "image_of charts_data k w h after =
     (case charts_data k of Some buf \<Rightarrow> Image_buf buf w h # after | None \<Rightarrow> [])"

definition cover :: "clock \<Rightarrow> (string \<rightharpoonup> string) \<Rightarrow> flowable list" where
  "cover now filter_info =
     [Spacer (3 / 2),
      Table [[Par BrandTitle (Lit ''E-COMMERCE ANALYTICS'')]],
      Spacer (1 / 2),
      Paragraph BrandTitle (Lit ''Sales Performance Proposal''),
      Paragraph BrandSubtitle (Lit ''Comprehensive Analytics Report''),
      Spacer 1,
      Table [[Txt ''Report Generated:'', Txt (generated now)],
             [Txt ''Date Range:'', Txt (get filter_info ''date_range'' ''All Dates'')],
             [Txt ''Category Filter:'', Txt (get filter_info ''category'' ''All Categories'')],
             [Txt ''Total Records:'', Txt (get filter_info ''total_records'' ''N/A'')]],
      PageBreak]"

definition assumptions_page :: "flowable list" where
  "assumptions_page =
     [heading ''Key Assumptions & Methodology'', Spacer (1 / 5),
      Paragraph Normal AssumptionsText,
      PageBreak]"

definition kpi_page :: "(string \<rightharpoonup> string) \<Rightarrow> flowable list" where
  "kpi_page metrics =
     [heading ''Executive Summary - Key Performance Indicators'', Spacer (3 / 10),
      Table [[Txt ''TOTAL SALES'', Txt ''AVG ORDER VALUE''],
             [Txt (get metrics ''total_sales'' ''N/A''), Txt (get metrics ''avg_order_value'' ''N/A'')],
             [Txt ''TOTAL ORDERS'', Txt ''TOTAL UNITS SOLD''],
             [Txt (get metrics ''total_orders'' ''N/A''), Txt (get metrics ''total_units'' ''N/A'')]],
      PageBreak]"

definition charts_page :: "(string \<rightharpoonup> chart) \<Rightarrow> flowable list" where
  "charts_page charts_data =
     [heading ''Sales Trend Analysis'', Spacer (1 / 5)]
     @ image_of charts_data ''sales_trend'' (13 / 2) 3 [Spacer (1 / 5)]
     @ [heading ''Top Categories Performance'', Spacer (1 / 5)]
     @ image_of charts_data ''top_categories'' (13 / 2) (7 / 2) []
     @ [PageBreak]"

definition more_charts_page :: "(string \<rightharpoonup> chart) \<Rightarrow> flowable list" where
  "more_charts_page charts_data =
     [heading ''Sales Distribution'', Spacer (1 / 5)]
     @ image_of charts_data ''sales_distribution'' (13 / 2) 3 [Spacer (1 / 5)]
     @ [heading ''Monthly Comparison'', Spacer (1 / 5)]
     @ image_of charts_data ''monthly_sales'' (13 / 2) 3 []
     @ [PageBreak]"

definition footer :: "clock \<Rightarrow> flowable list" where
  "footer now = [Spacer (1 / 2), Paragraph Footer (FooterText (year now))]"

definition create_branded_pdf_report ::
  "clock \<Rightarrow> frame \<Rightarrow> (string \<rightharpoonup> string) \<Rightarrow> (string \<rightharpoonup> chart) \<Rightarrow> string option \<Rightarrow> string option
     \<Rightarrow> string option \<Rightarrow> string option \<Rightarrow> (string \<rightharpoonup> string) \<Rightarrow> error + flowable list" where
  "create_branded_pdf_report now df metrics charts_data date_col amount_col category_col
       quantity_col filter_info =
     (let front = cover now filter_info @ assumptions_page @ kpi_page metrics
                  @ charts_page charts_data @ more_charts_page charts_data
                  @ [heading ''Top 10 Categories - Detailed Breakdown'', Spacer (1 / 5)]
      in case (category_col, amount_col) of
           (Some c, Some a) \<Rightarrow>
             (case top_categories df c a of
                Inl e \<Rightarrow> Inl e
              | Inr tc \<Rightarrow>
                  Inr (front @ [Table (map (map Txt) (category_data tc))] @ footer now))
         | _ \<Rightarrow> Inr (front @ footer now))"

section \<open>The script (\<^verbatim>\<open>ecommerce-dash-pdf.py\<close>, lines 412 to 621)\<close>

definition and_then :: "error + 'a \<Rightarrow> ('a \<Rightarrow> error + 'b) \<Rightarrow> error + 'b" where
  "and_then m f = (case m of Inl e \<Rightarrow> Inl e | Inr x \<Rightarrow> f x)"

text \<open>
  Lines 572 to 585: \<^verbatim>\<open>charts_data\<close>, one entry per chart whose columns are bound, made in this
  order. A chart that raises ends the export.
\<close>

definition put_chart ::
  "string \<Rightarrow> error + chart \<Rightarrow> (string \<rightharpoonup> chart) \<Rightarrow> error + (string \<rightharpoonup> chart)" where
  "put_chart k made charts_data = and_then made (\<lambda>buf. Inr (charts_data(k \<mapsto> buf)))"

definition make_charts_data ::
  "frame \<Rightarrow> string option \<Rightarrow> string option \<Rightarrow> string option \<Rightarrow> error + (string \<rightharpoonup> chart)" where
  "make_charts_data df date_col amount_col category_col =
     and_then (case (date_col, amount_col) of
                 (Some d, Some a) \<Rightarrow>
                   put_chart ''sales_trend'' (create_sales_trend_chart df d a) Map.empty
               | _ \<Rightarrow> Inr Map.empty)
    (\<lambda>c1. and_then (case (category_col, amount_col) of
                 (Some c, Some a) \<Rightarrow>
                   put_chart ''top_categories'' (create_top_categories_chart df c a) c1
               | _ \<Rightarrow> Inr c1)
    (\<lambda>c2. and_then (case amount_col of
                 Some a \<Rightarrow> put_chart ''sales_distribution'' (create_distribution_chart df a) c2
               | None \<Rightarrow> Inr c2)
    (\<lambda>c3. case (date_col, amount_col) of
                 (Some d, Some a) \<Rightarrow>
                   put_chart ''monthly_sales'' (create_monthly_chart df d a) c3
               | _ \<Rightarrow> Inr c3)))"

text \<open>Lines 571 to 603: the export, inside its own \<^verbatim>\<open>try\<close>.\<close>

definition pdf_export ::
  "clock \<Rightarrow> frame \<Rightarrow> (string \<rightharpoonup> string) \<Rightarrow> string option \<Rightarrow> string option \<Rightarrow> string option
     \<Rightarrow> string option \<Rightarrow> (string \<rightharpoonup> string) \<Rightarrow> error + flowable list" where
  "pdf_export now df metrics date_col amount_col category_col quantity_col filter_info =
     and_then (make_charts_data df date_col amount_col category_col)
       (\<lambda>charts_data. create_branded_pdf_report now df metrics charts_data date_col amount_col
                         category_col quantity_col filter_info)"

text \<open>
  What one run of the script produces: the frame after the filters, the filter description,
  the metrics, the ranking drawn on the page (line 515), the frame handed to \<^verbatim>\<open>to_csv\<close>
  (line 564) and the report or the error its \<^verbatim>\<open>try\<close> caught. Writing the frame as CSV text is
  pandas' work and a function of that frame alone.
\<close>

record dashboard =
  filtered :: frame
  filter_info :: "string \<rightharpoonup> string"
  metrics :: "string \<rightharpoonup> string"
  ranking :: "(string \<times> rat) list option"
  csv_frame :: frame
  pdf :: "error + flowable list"

text \<open>
  The run. \<open>loaded\<close> is the result of \<^verbatim>\<open>load_data()\<close>, \<open>None\<close> when the file is not there;
  \<open>date_range\<close> and \<open>selected_category\<close> are what the two sidebar widgets returned. The page
  charts between the metrics and the table draw from the frame without changing it, except
  the monthly one (line 542), which assigns the \<^verbatim>\<open>Month\<close> column to \<^verbatim>\<open>df\<close> itself.
\<close>

definition main :: "clock \<Rightarrow> frame option \<Rightarrow> date list \<Rightarrow> string \<Rightarrow> error + dashboard" where
  "main now loaded date_range selected_category =
     (case loaded of
        None \<Rightarrow> Inl FileNotFoundError
      | Some df0 \<Rightarrow>
          and_then (apply_filters date_range selected_category df0) (\<lambda>(df, info).
          and_then (metrics_data df) (\<lambda>md.
            let date_col = date_col_of df0;
                category_col = category_col_of df;
                amount_col = amount_col_of df;
                quantity_col = quantity_col_of df
            in and_then (case (category_col, amount_col) of
                           (Some c, Some a) \<Rightarrow> map_sum id Some (top_categories df c a)
                         | _ \<Rightarrow> Inr None) (\<lambda>shown_ranking.
                 let df_month = (case (date_col, amount_col) of
                                   (Some d, Some a) \<Rightarrow> assign_month d df
                                 | _ \<Rightarrow> df)
                 in Inr \<lparr>filtered = df, filter_info = info, metrics = md,
                         ranking = shown_ranking, csv_frame = df_month,
                         pdf = pdf_export now df_month md date_col amount_col category_col
                                 quantity_col info\<rparr>))))"

section \<open>Observations and sample inputs\<close>

text \<open>Reading one entry of a dictionary the script may have failed to build.\<close>

definition entry :: "error + (string \<rightharpoonup> 'v) \<Rightarrow> string \<Rightarrow> error + 'v option" where
  "entry r k = (case r of Inl e \<Rightarrow> Inl e | Inr m \<Rightarrow> Inr (m k))"

text \<open>Reading one field of a run that may have failed.\<close>

definition observe :: "(dashboard \<Rightarrow> 'a) \<Rightarrow> error + dashboard \<Rightarrow> error + 'a" where
  "observe f r = (case r of Inl e \<Rightarrow> Inl e | Inr d \<Rightarrow> Inr (f d))"



definition filtered_columns :: "dashboard \<Rightarrow> string list" where
  "filtered_columns d = columns (filtered d)"

definition csv_columns :: "dashboard \<Rightarrow> string list" where
  "csv_columns d = columns (csv_frame d)"

definition csv_cells :: "string \<Rightarrow> dashboard \<Rightarrow> cell option list" where
  "csv_cells c d = map (\<lambda>r. r c) (rows (csv_frame d))"












abbreviation sample_clock :: clock where
  "sample_clock \<equiv> \<lparr>generated = ''January 03, 2024 at 10:00'', year = ''2024''\<rparr>"

text \<open>Three orders of 10, 20 and 30, with no quantity column.\<close>

abbreviation three_orders :: frame where
  "three_orders \<equiv>
     \<lparr>columns = [''Amount''],
      rows = [[''Amount'' \<mapsto> Num 10], [''Amount'' \<mapsto> Num 20], [''Amount'' \<mapsto> Num 30]]\<rparr>"

text \<open>One order of two units.\<close>

abbreviation one_order :: frame where
  "one_order \<equiv>
     \<lparr>columns = [''Amount'', ''Qty''], rows = [[''Amount'' \<mapsto> Num 10, ''Qty'' \<mapsto> Num 2]]\<rparr>"

text \<open>
  Day 19723 is 2024-01-01. Two orders, at midnight of 2024-01-01 and of 2024-01-03.
\<close>

abbreviation jan_1_and_3 :: frame where
  "jan_1_and_3 \<equiv>
     \<lparr>columns = [''Date'', ''Amount''],
      rows = [[''Date'' \<mapsto> Time (to_datetime 19723), ''Amount'' \<mapsto> Num 10],
              [''Date'' \<mapsto> Time (to_datetime 19725), ''Amount'' \<mapsto> Num 20]]\<rparr>"

text \<open>Two orders, at midnight of 2024-01-01 and at 10:30 on 2024-01-02.\<close>

abbreviation two_days :: frame where
  "two_days \<equiv>
     \<lparr>columns = [''Date'', ''Amount''],
      rows = [[''Date'' \<mapsto> Time (to_datetime 19723), ''Amount'' \<mapsto> Num 10],
              [''Date'' \<mapsto> Time (to_datetime 19724 + 37800000000000), ''Amount'' \<mapsto> Num 20]]\<rparr>"

text \<open>Three orders on three days, in two categories.\<close>

abbreviation three_days :: frame where
  "three_days \<equiv>
     \<lparr>columns = [''Date'', ''Category'', ''Amount''],
      rows = [[''Date'' \<mapsto> Time (to_datetime 19723), ''Category'' \<mapsto> Str ''A'', ''Amount'' \<mapsto> Num 10],
              [''Date'' \<mapsto> Time (to_datetime 19724), ''Category'' \<mapsto> Str ''B'', ''Amount'' \<mapsto> Num 20],
              [''Date'' \<mapsto> Time (to_datetime 19725), ''Category'' \<mapsto> Str ''A'', ''Amount'' \<mapsto> Num 30]]\<rparr>"

text \<open>Three categories, two of them with the same sum; one amount is missing.\<close>

abbreviation tied_sales :: frame where
  "tied_sales \<equiv>
     \<lparr>columns = [''Category'', ''Amount''],
      rows = [[''Category'' \<mapsto> Str ''B'', ''Amount'' \<mapsto> Num 5],
              [''Category'' \<mapsto> Str ''A'', ''Amount'' \<mapsto> Num 5],
              [''Category'' \<mapsto> Str ''C'', ''Amount'' \<mapsto> Num 7],
              [''Category'' \<mapsto> Str ''A'', ''Amount'' \<mapsto> NA]]\<rparr>"

text \<open>Eleven categories with the same sum.\<close>

abbreviation eleven_tied :: frame where
  "eleven_tied \<equiv>
     \<lparr>columns = [''Category'', ''Amount''],
      rows = [[''Category'' \<mapsto> Str ''A'', ''Amount'' \<mapsto> Num 5],
              [''Category'' \<mapsto> Str ''B'', ''Amount'' \<mapsto> Num 5],
              [''Category'' \<mapsto> Str ''C'', ''Amount'' \<mapsto> Num 5],
              [''Category'' \<mapsto> Str ''D'', ''Amount'' \<mapsto> Num 5],
              [''Category'' \<mapsto> Str ''E'', ''Amount'' \<mapsto> Num 5],
              [''Category'' \<mapsto> Str ''F'', ''Amount'' \<mapsto> Num 5],
              [''Category'' \<mapsto> Str ''G'', ''Amount'' \<mapsto> Num 5],
              [''Category'' \<mapsto> Str ''H'', ''Amount'' \<mapsto> Num 5],
              [''Category'' \<mapsto> Str ''I'', ''Amount'' \<mapsto> Num 5],
              [''Category'' \<mapsto> Str ''J'', ''Amount'' \<mapsto> Num 5],
              [''Category'' \<mapsto> Str ''K'', ''Amount'' \<mapsto> Num 5]]\<rparr>"



section \<open>Evaluation rules\<close>

lemma floor_numeral_divide:
  "\<lfloor>numeral a / numeral b :: rat\<rfloor> = numeral a div numeral b"
  using floor_divide_of_int_eq [of "numeral a" "numeral b", where ?'a = rat] by simp

lemmas fmt_eval = fmt_int_def str_nat_def thousands_def dec_digits.simps digit_char_def
  fmt_fixed_def round_half_even_def Let_def floor_numeral_divide

lemmas roles_eval = date_col_of_def category_col_of_def amount_col_of_def quantity_col_of_def

lemmas column_eval = col_def cell_at_def len_def numeric_def series_sum_def series_mean_def
  dropna_def List.map_filter_def select_def

lemmas group_eval = groupby_sum_def text_key_def List.map_filter_def select_def col_def
  cell_at_def series_sum_def dropna_def

section \<open>Sample dates\<close>

lemma civil_samples:
  "civil 19723 = (2024, 1, 1)" "civil 19724 = (2024, 1, 2)" "civil 19725 = (2024, 1, 3)"
  unfolding civil_def Let_def by simp_all

lemma iso_month_samples:
  "iso_month 19723 = ''2024-01''" "iso_month 19724 = ''2024-01''" "iso_month 19725 = ''2024-01''"
  by (simp_all add: iso_month_def civil_samples dec_digits.simps digit_char_def)

lemma iso_date_samples:
  "iso_date 19723 = ''2024-01-01''" "iso_date 19724 = ''2024-01-02''"
  "iso_date 19725 = ''2024-01-03''"
  by (simp_all add: iso_date_def iso_month_samples civil_samples dec_digits.simps digit_char_def)

section \<open>The thousands separator\<close>





section \<open>Reading numbers back\<close>















section \<open>The metrics\<close>

lemma metrics_data_numeric:
  assumes "metrics_data df = Inr m" and "amount_col_of df = Some a"
  shows "numeric (col df a)"
  using assms by (auto simp: metrics_data_def Let_def split: option.splits if_splits sum.splits)



section \<open>What a run returns\<close>

lemma main_InrD:
  assumes "main now loaded date_range selected_category = Inr d"
  shows "\<exists>df0. loaded = Some df0
           \<and> apply_filters date_range selected_category df0 = Inr (filtered d, filter_info d)
           \<and> metrics_data (filtered d) = Inr (metrics d)
           \<and> csv_frame d = (case (date_col_of df0, amount_col_of (filtered d)) of
                              (Some dc, Some a) \<Rightarrow> assign_month dc (filtered d)
                            | _ \<Rightarrow> filtered d)"
  using assms
  by (auto simp: main_def and_then_def Let_def split: option.splits sum.splits prod.splits)

text \<open>Once the filters and the metrics went through, nothing later stops the run.\<close>

lemma main_returns:
  assumes "apply_filters date_range selected_category df0 = Inr (df, info)"
    and "metrics_data df = Inr md"
  shows "\<exists>d. main now (Some df0) date_range selected_category = Inr d
           \<and> filtered d = df \<and> filter_info d = info \<and> metrics d = md"
proof (cases "category_col_of df")
  case None
  then show ?thesis using assms by (simp add: main_def and_then_def Let_def)
next
  case (Some c)
  show ?thesis
  proof (cases "amount_col_of df")
    case None
    then show ?thesis using assms Some by (simp add: main_def and_then_def Let_def)
  next
    case (Some a)
    then have "numeric (col df a)" using assms(2) by (rule metrics_data_numeric[rotated])
    then show ?thesis using assms Some \<open>category_col_of df = Some c\<close>
      by (simp add: main_def and_then_def Let_def top_categories_def)
  qed
qed

section \<open>Claims about the metrics\<close>

text \<open>
  Claim C3, as stated: no entry of the metrics bundle refers to an unbound role, for example
  no total-units entry when the quantity role is unbound. The script stores the entry
  \<^verbatim>\<open>total_units\<close> with the marker \<^verbatim>\<open>N/A\<close> in exactly that case (line 492): for one order
  with no quantity column the entry is there.
\<close>

theorem total_units_counterexample:
  "quantity_col_of \<lparr>columns = [''Amount''], rows = [[''Amount'' \<mapsto> Num 10]]\<rparr> = None
   \<and> entry (metrics_data \<lparr>columns = [''Amount''], rows = [[''Amount'' \<mapsto> Num 10]]\<rparr>)
        ''total_units'' = Inr (Some ''N/A'')"
  by (simp add: entry_def metrics_data_def roles_eval column_eval fmt_eval)

text \<open>
  Claim C3, amended: the entries \<^verbatim>\<open>total_sales\<close> and \<^verbatim>\<open>avg_order_value\<close> are in the bundle
  exactly when the amount role is bound; \<^verbatim>\<open>total_orders\<close> and \<^verbatim>\<open>total_units\<close> are always in it;
  \<^verbatim>\<open>total_units\<close> is the marker \<^verbatim>\<open>N/A\<close> when the quantity role is unbound and the formatted sum
  of the quantity column when it is bound; the bundle has no other entry.
\<close>

theorem metrics_entries:
  assumes "metrics_data df = Inr m"
  shows "(m ''total_sales'' \<noteq> None \<longleftrightarrow> amount_col_of df \<noteq> None)
       \<and> (m ''avg_order_value'' \<noteq> None \<longleftrightarrow> amount_col_of df \<noteq> None)
       \<and> m ''total_orders'' \<noteq> None
       \<and> (quantity_col_of df = None \<longrightarrow> m ''total_units'' = Some ''N/A'')
       \<and> (\<forall>q. quantity_col_of df = Some q \<longrightarrow>
              m ''total_units'' = Some (fmt_fixed True 0 (series_sum (col df q))))
       \<and> dom m \<subseteq> {''total_sales'', ''avg_order_value'', ''total_orders'', ''total_units''}"
  using assms
  by (auto simp: metrics_data_def Let_def split: option.splits if_splits sum.splits)

theorem metrics_entries_witness:
  "metrics_data three_orders
     = Inr [''total_sales'' \<mapsto> ''$60.00'', ''avg_order_value'' \<mapsto> ''$20.00'',
            ''total_orders'' \<mapsto> ''3'', ''total_units'' \<mapsto> ''N/A'']
   \<and> quantity_col_of three_orders = None
   \<and> metrics_data one_order
     = Inr [''total_sales'' \<mapsto> ''$10.00'', ''avg_order_value'' \<mapsto> ''$10.00'',
            ''total_orders'' \<mapsto> ''1'', ''total_units'' \<mapsto> ''2'']
   \<and> quantity_col_of one_order = Some ''Qty''
   \<and> fmt_fixed True 0 (series_sum (col one_order ''Qty'')) = ''2''"
proof -
  have a: "metrics_data three_orders
     = Inr [''total_sales'' \<mapsto> ''$60.00'', ''avg_order_value'' \<mapsto> ''$20.00'',
            ''total_orders'' \<mapsto> ''3'', ''total_units'' \<mapsto> ''N/A'']"
    by (simp add: metrics_data_def roles_eval column_eval fmt_eval)
  have b: "metrics_data one_order
     = Inr [''total_sales'' \<mapsto> ''$10.00'', ''avg_order_value'' \<mapsto> ''$10.00'',
            ''total_orders'' \<mapsto> ''1'', ''total_units'' \<mapsto> ''2'']"
    by (simp add: metrics_data_def roles_eval column_eval fmt_eval)
  have c: "quantity_col_of three_orders = None" "quantity_col_of one_order = Some ''Qty''"
    by (simp_all add: roles_eval)
  show ?thesis
    using a b c metrics_entries [OF a] metrics_entries [OF b] by simp
qed










section \<open>Claims about the filters\<close>

lemma between_TimeD:
  assumes "between lo hi c"
  shows "\<exists>t. c = Time t \<and> lo \<le> t \<and> t \<le> hi"
  using assms by (cases c) auto

lemma dt_date_bounds:
  assumes "to_datetime lo \<le> t" and "t \<le> to_datetime hi"
  shows "lo \<le> dt_date t \<and> dt_date t \<le> hi"
proof -
  define q where "q = t div 86400000000000"
  define m where "m = t mod 86400000000000"
  have "t = 86400000000000 * q + m" "0 \<le> m" "m < 86400000000000"
    by (simp_all add: q_def m_def)
  with assms show ?thesis
    unfolding dt_date_def to_datetime_def ns_per_day_def q_def [symmetric] by arith
qed

lemma date_filter_rows:
  assumes "date_col_of df = Some dc" and "length date_range = 2"
  shows "date_filter date_range df
           = (select (\<lambda>r. between (to_datetime (date_range ! 0)) (to_datetime (date_range ! 1))
                               (cell_at r dc)) df,
              [''date_range'' \<mapsto> iso_date (date_range ! 0) @ '' to '' @ iso_date (date_range ! 1)])"
  using assms by (simp add: date_filter_def)

lemma date_filter_one_endpoint:
  assumes "date_col_of df = Some dc" and "length date_range \<noteq> 2"
  shows "date_filter date_range df = (df, [''date_range'' \<mapsto> ''All Dates''])"
  using assms by (simp add: date_filter_def)

lemma date_filter_frame:
  "columns (fst (date_filter date_range df)) = columns df
   \<and> subseq (rows (fst (date_filter date_range df))) (rows df)"
  by (simp add: date_filter_def select_def split: option.splits)

lemma category_filter_frame:
  assumes "category_filter selected_category (df1, info1) = Inr (df', info)"
  shows "columns df' = columns df1 \<and> subseq (rows df') (rows df1)"
  using assms
  by (auto simp: category_filter_def select_def split: option.splits if_splits)

lemma category_filter_rows:
  assumes "category_filter selected_category (df1, info1) = Inr (df', info)"
    and "category_col_of df1 = Some cc" and "selected_category \<noteq> ''All''"
  shows "rows df' = filter (\<lambda>r. cell_at r cc = Str selected_category) (rows df1)"
  using assms
  by (auto simp: category_filter_def select_def split: option.splits if_splits)

lemma category_filter_All:
  assumes "category_filter ''All'' (df1, info1) = Inr (df', info)"
  shows "df' = df1"
  using assms
  by (auto simp: category_filter_def split: option.splits if_splits)

lemma apply_filters_InrD:
  assumes "apply_filters date_range selected_category df = Inr (df', info)"
  shows "\<exists>info'. category_filter selected_category
                    (fst (date_filter date_range df), snd (date_filter date_range df))
                  = Inr (df', info')"
  using assms by (auto simp: apply_filters_def split: sum.splits prod.splits)

lemma subseq_in_set: "subseq xs ys \<Longrightarrow> x \<in> set xs \<Longrightarrow> x \<in> set ys"
  by (auto elim: list_emb_set)

lemma apply_filters_columns:
  assumes "apply_filters date_range selected_category df = Inr (df', info)"
  shows "columns df' = columns df"
proof -
  from apply_filters_InrD [OF assms] obtain info'
    where "category_filter selected_category
             (fst (date_filter date_range df), snd (date_filter date_range df)) = Inr (df', info')" ..
  from category_filter_frame [OF this] date_filter_frame [of date_range df]
  show ?thesis by simp
qed

text \<open>
  On timestamps that are midnights, which is what a column of plain dates parses to, the
  mask is the inclusive range of days.
\<close>

lemma between_midnights:
  "between (to_datetime lo) (to_datetime hi) (Time (to_datetime d)) \<longleftrightarrow> lo \<le> d \<and> d \<le> hi"
  by (simp add: to_datetime_def ns_per_day_def)

text \<open>
  Claim C4: with exactly two endpoints the date filter keeps exactly the rows whose date is
  at least the start and at most the end, both bounds included; with one endpoint no date
  filter applies and the description says \<^verbatim>\<open>All Dates\<close>. The second half holds
  (\<open>date_filter_one_endpoint\<close>). For the first half the script compares each timestamp with
  the midnight that begins the end date (\<^verbatim>\<open>pd.to_datetime(date_range[1])\<close>), so an order at
  10:30 on the end date, whose calendar day (\<^verbatim>\<open>.dt.date\<close>, the day the trend chart files it
  under) is the end date, is dropped: of the two orders below, inside the range 2024-01-01 to
  2024-01-02, only the first is kept.
\<close>

theorem end_day_row_dropped:
  "dt_date (to_datetime 19724 + 37800000000000) = 19724
   \<and> rows (fst (date_filter [19723, 19724] two_days))
       = [[''Date'' \<mapsto> Time (to_datetime 19723), ''Amount'' \<mapsto> Num 10]]"
  by (simp add: date_filter_def date_col_of_def select_def cell_at_def dt_date_def
      to_datetime_def ns_per_day_def)

text \<open>
  Claim C5: filtering is monotonic. Whenever the filters return, the kept rows are a
  subsequence of the source rows, so there are no more of them, and the columns are the
  same; when the date filter is active (date role bound, two endpoints) every kept row has a
  timestamp between the two midnights, hence a calendar day between the two endpoints; when
  a category other than \<^verbatim>\<open>All\<close> is selected every kept row's category is exactly the selected
  text; and selecting \<^verbatim>\<open>All\<close> leaves the date-filtered frame as it is.
\<close>

theorem filtering_monotonic:
  assumes "apply_filters date_range selected_category df = Inr (df', info)"
  shows "len df' \<le> len df
       \<and> subseq (rows df') (rows df)
       \<and> columns df' = columns df
       \<and> (\<forall>dc. date_col_of df = Some dc \<and> length date_range = 2 \<longrightarrow>
             (\<forall>r \<in> set (rows df'). \<exists>t. cell_at r dc = Time t
                 \<and> to_datetime (date_range ! 0) \<le> t \<and> t \<le> to_datetime (date_range ! 1)
                 \<and> date_range ! 0 \<le> dt_date t \<and> dt_date t \<le> date_range ! 1))
       \<and> (\<forall>cc. category_col_of df = Some cc \<and> selected_category \<noteq> ''All'' \<longrightarrow>
             (\<forall>r \<in> set (rows df'). cell_at r cc = Str selected_category))
       \<and> (selected_category = ''All'' \<longrightarrow> df' = fst (date_filter date_range df))"
proof -
  let ?df1 = "fst (date_filter date_range df)"
  from apply_filters_InrD [OF assms] obtain info'
    where c: "category_filter selected_category (?df1, snd (date_filter date_range df))
                = Inr (df', info')" ..
  have d: "columns ?df1 = columns df" "subseq (rows ?df1) (rows df)"
    using date_filter_frame [of date_range df] by simp_all
  have e: "columns df' = columns ?df1" "subseq (rows df') (rows ?df1)"
    using category_filter_frame [OF c] by simp_all
  have sub: "subseq (rows df') (rows df)"
    using e(2) d(2) by (rule subseq_order.trans)
  then have le: "len df' \<le> len df"
    unfolding len_def by (rule list_emb_length)
  have cols: "columns df' = columns df"
    using d(1) e(1) by simp
  have dates: "\<exists>t. cell_at r dc = Time t
                 \<and> to_datetime (date_range ! 0) \<le> t \<and> t \<le> to_datetime (date_range ! 1)
                 \<and> date_range ! 0 \<le> dt_date t \<and> dt_date t \<le> date_range ! 1"
    if h: "date_col_of df = Some dc \<and> length date_range = 2" and r: "r \<in> set (rows df')" for dc r
  proof -
    from h have h1: "date_col_of df = Some dc" and h2: "length date_range = 2" by simp_all
    have "r \<in> set (rows ?df1)"
      using e(2) r by (rule subseq_in_set)
    then have "between (to_datetime (date_range ! 0)) (to_datetime (date_range ! 1)) (cell_at r dc)"
      by (simp add: date_filter_rows [OF h1 h2] select_def)
    from between_TimeD [OF this] obtain t where t: "cell_at r dc = Time t"
      "to_datetime (date_range ! 0) \<le> t" "t \<le> to_datetime (date_range ! 1)" by blast
    from dt_date_bounds [OF t(2,3)] t show ?thesis by simp
  qed
  have cats: "cell_at r cc = Str selected_category"
    if h: "category_col_of df = Some cc \<and> selected_category \<noteq> ''All''"
      and r: "r \<in> set (rows df')" for cc r
  proof -
    from h have "category_col_of ?df1 = Some cc"
      using d(1) by (simp add: category_col_of_def)
    from category_filter_rows [OF c this] h r show ?thesis by simp
  qed
  have all: "df' = ?df1" if "selected_category = ''All''"
    using c unfolding that by (rule category_filter_All)
  show ?thesis
  proof (intro conjI allI impI ballI)
    show "len df' \<le> len df" by (rule le)
    show "subseq (rows df') (rows df)" by (rule sub)
    show "columns df' = columns df" by (rule cols)
    show "\<exists>t. cell_at r dc = Time t
                 \<and> to_datetime (date_range ! 0) \<le> t \<and> t \<le> to_datetime (date_range ! 1)
                 \<and> date_range ! 0 \<le> dt_date t \<and> dt_date t \<le> date_range ! 1"
      if "date_col_of df = Some dc \<and> length date_range = 2" "r \<in> set (rows df')" for dc r
      using that by (rule dates)
    show "cell_at r cc = Str selected_category"
      if "category_col_of df = Some cc \<and> selected_category \<noteq> ''All''" "r \<in> set (rows df')" for cc r
      using that by (rule cats)
    show "df' = ?df1" if "selected_category = ''All''"
      using that by (rule all)
  qed
qed

lemma three_days_filtered:
  "apply_filters [19723, 19724] ''A'' three_days
     = Inr (\<lparr>columns = [''Date'', ''Category'', ''Amount''],
             rows = [[''Date'' \<mapsto> Time (to_datetime 19723), ''Category'' \<mapsto> Str ''A'',
                      ''Amount'' \<mapsto> Num 10]]\<rparr>,
            [''date_range'' \<mapsto> ''2024-01-01 to 2024-01-02'', ''category'' \<mapsto> ''A'',
             ''total_records'' \<mapsto> ''1''])"
  by (simp add: apply_filters_def category_filter_def date_filter_def py_sortable_def
      date_col_of_def category_col_of_def select_def col_def cell_at_def to_datetime_def
      ns_per_day_def iso_date_samples len_def fmt_int_def thousands_def dec_digits.simps
      digit_char_def)

theorem filtering_monotonic_witness:
  "apply_filters [19723, 19724] ''A'' three_days
     = Inr (\<lparr>columns = [''Date'', ''Category'', ''Amount''],
             rows = [[''Date'' \<mapsto> Time (to_datetime 19723), ''Category'' \<mapsto> Str ''A'',
                      ''Amount'' \<mapsto> Num 10]]\<rparr>,
            [''date_range'' \<mapsto> ''2024-01-01 to 2024-01-02'', ''category'' \<mapsto> ''A'',
             ''total_records'' \<mapsto> ''1''])
   \<and> date_col_of three_days = Some ''Date'' \<and> length [19723, 19724 :: date] = 2
   \<and> category_col_of three_days = Some ''Category'' \<and> ''A'' \<noteq> ''All''
   \<and> len \<lparr>columns = [''Date'', ''Category'', ''Amount''],
             rows = [[''Date'' \<mapsto> Time (to_datetime 19723), ''Category'' \<mapsto> Str ''A'',
                      ''Amount'' \<mapsto> Num 10]]\<rparr> \<le> len three_days"
proof -
  have r: "date_col_of three_days = Some ''Date''" "category_col_of three_days = Some ''Category''"
    by (simp_all add: roles_eval)
  from filtering_monotonic [OF three_days_filtered] three_days_filtered r
  show ?thesis by simp
qed

section \<open>Claims about the CSV export\<close>

text \<open>
  The frame handed to \<^verbatim>\<open>to_csv\<close> is the filtered frame when the date or the amount role is
  unbound, and the filtered frame with the \<^verbatim>\<open>Month\<close> column assigned when both are bound.
\<close>

lemma csv_frame_of_run:
  assumes "main now loaded date_range selected_category = Inr d"
  shows "csv_frame d = (case (date_col_of (filtered d), amount_col_of (filtered d)) of
                          (Some dc, Some a) \<Rightarrow> assign_month dc (filtered d)
                        | _ \<Rightarrow> filtered d)"
proof -
  from main_InrD [OF assms] obtain df0 where
    f: "apply_filters date_range selected_category df0 = Inr (filtered d, filter_info d)"
    and c: "csv_frame d = (case (date_col_of df0, amount_col_of (filtered d)) of
                              (Some dc, Some a) \<Rightarrow> assign_month dc (filtered d)
                            | _ \<Rightarrow> filtered d)"
    by blast
  have "date_col_of df0 = date_col_of (filtered d)"
    using apply_filters_columns [OF f] by (simp add: date_col_of_def)
  with c show ?thesis by simp
qed

lemma assign_month_columns: "''Month'' \<in> set (columns (assign_month dc df))"
  by (simp add: assign_month_def)

lemma whole_range_run:
  "apply_filters [19723, 19725] ''All'' jan_1_and_3
     = Inr (jan_1_and_3,
            [''date_range'' \<mapsto> ''2024-01-01 to 2024-01-03'', ''total_records'' \<mapsto> ''2''])"
  by (simp add: apply_filters_def category_filter_def date_filter_def date_col_of_def
      category_col_of_def select_def cell_at_def to_datetime_def ns_per_day_def
      iso_date_samples len_def fmt_int_def thousands_def dec_digits.simps digit_char_def)

lemma whole_range_metrics:
  "metrics_data jan_1_and_3
     = Inr [''total_sales'' \<mapsto> ''$30.00'', ''avg_order_value'' \<mapsto> ''$15.00'',
            ''total_orders'' \<mapsto> ''2'', ''total_units'' \<mapsto> ''N/A'']"
  by (simp add: metrics_data_def roles_eval column_eval fmt_eval)

lemma whole_range_month:
  "assign_month ''Date'' jan_1_and_3
     = \<lparr>columns = [''Date'', ''Amount'', ''Month''],
        rows = [[''Date'' \<mapsto> Time (to_datetime 19723), ''Amount'' \<mapsto> Num 10,
                 ''Month'' \<mapsto> Str ''2024-01''],
                [''Date'' \<mapsto> Time (to_datetime 19725), ''Amount'' \<mapsto> Num 20,
                 ''Month'' \<mapsto> Str ''2024-01'']]\<rparr>"
  by (simp add: assign_month_def cell_at_def dt_date_def to_datetime_def ns_per_day_def
      iso_month_samples)

text \<open>
  Claim C1: the CSV export writes exactly the filtered frame, and nothing between filtering
  and export adds a column to it or changes it. The monthly page chart assigns
  \<^verbatim>\<open>df['Month']\<close> to the filtered frame itself (line 542; the report's monthly chart works on
  a copy, line 91), so when the date and amount roles are bound the exported frame has one
  column more than the filtered one. Here with two orders and the whole range selected.
\<close>

theorem csv_export_gains_month_column:
  "observe filtered_columns (main sample_clock (Some jan_1_and_3) [19723, 19725] ''All'')
     = Inr [''Date'', ''Amount'']
   \<and> observe csv_columns (main sample_clock (Some jan_1_and_3) [19723, 19725] ''All'')
     = Inr [''Date'', ''Amount'', ''Month'']
   \<and> observe (csv_cells ''Month'') (main sample_clock (Some jan_1_and_3) [19723, 19725] ''All'')
     = Inr [Some (Str ''2024-01''), Some (Str ''2024-01'')]"
proof -
  from main_returns [OF whole_range_run whole_range_metrics, of sample_clock]
  obtain d where d: "main sample_clock (Some jan_1_and_3) [19723, 19725] ''All'' = Inr d"
    and f: "filtered d = jan_1_and_3"
    by blast
  from main_InrD [OF d] have "csv_frame d = assign_month ''Date'' jan_1_and_3"
    by (simp add: f date_col_of_def amount_col_of_def)
  then have c: "csv_frame d = \<lparr>columns = [''Date'', ''Amount'', ''Month''],
        rows = [[''Date'' \<mapsto> Time (to_datetime 19723), ''Amount'' \<mapsto> Num 10,
                 ''Month'' \<mapsto> Str ''2024-01''],
                [''Date'' \<mapsto> Time (to_datetime 19725), ''Amount'' \<mapsto> Num 20,
                 ''Month'' \<mapsto> Str ''2024-01'']]\<rparr>"
    by (simp only: whole_range_month)
  show ?thesis
    unfolding d by (simp add: c f observe_def filtered_columns_def csv_columns_def csv_cells_def)
qed

section \<open>Sorting\<close>





lemma sort_values_ascending: "sorted_wrt (\<lambda>x y. snd x \<le> snd y) (sort_values True g)"
proof -
  have "sorted (map snd (sort_key snd g))" by (rule sorted_sort_key)
  then show ?thesis
    by (simp add: sort_values_def sorted_wrt_map)
qed


lemma sort_values_sums:
  "map snd (sort_values False g) = rev (map snd (sort_values True g))"
proof -
  have a: "sort (map snd (rev g)) = map snd (sort_key snd (rev g))"
    by (rule properties_for_sort) (simp_all add: sorted_sort_key)
  have b: "sort (map snd (rev g)) = map snd (sort_key snd g)"
    by (rule properties_for_sort) (simp_all add: sorted_sort_key)
  from a b show ?thesis by (simp add: sort_values_def rev_map)
qed

lemma sort_values_distinct_sums:
  assumes "distinct (map snd g)"
  shows "sort_values False g = rev (sort_values True g)"
proof -
  have "inj_on snd (set g)" using assms by (simp add: distinct_map)
  then have "sort_key snd (rev g) = sort_key snd g"
    by (intro sort_key_inj_key_eq) (simp_all add: sorted_sort_key)
  then show ?thesis by (simp add: sort_values_def)
qed

lemma head_rev_tail: "head n (rev xs) = rev (tail n xs)"
  by (simp add: head_def tail_def take_rev)

section \<open>Grouping\<close>


lemma groupby_sum_keys:
  "map fst (groupby_sum key a df) = sort (remdups (List.map_filter key (rows df)))"
  by (simp add: groupby_sum_def comp_def)




lemma groupby_sum_complete:
  assumes "r \<in> set (rows df)" and "key r = Some k"
  shows "k \<in> fst ` set (groupby_sum key a df)"
proof -
  have "k \<in> set (List.map_filter key (rows df))"
    using assms by (force simp: List.map_filter_def)
  then have "k \<in> set (map fst (groupby_sum key a df))"
    by (simp add: groupby_sum_keys)
  then show ?thesis by simp
qed


lemma chart_InrD:
  assumes "create_top_categories_chart df c a = Inr (TopCategories ch)"
  shows "ch = tail 10 (sort_values True (groupby_sum (text_key c) a df))"
  using assms by (simp add: create_top_categories_chart_def split: if_splits)

lemma tied_sales_groups:
  "groupby_sum (text_key ''Category'') ''Amount'' tied_sales = [(''A'', 5), (''B'', 5), (''C'', 7)]"
  by (simp add: group_eval)


lemma tied_sales_chart:
  "create_top_categories_chart tied_sales ''Category'' ''Amount''
     = Inr (TopCategories [(''A'', 5), (''B'', 5), (''C'', 7)])"
  by (simp add: create_top_categories_chart_def numeric_def col_def cell_at_def
      tied_sales_groups sort_values_def tail_def)

lemma eleven_tied_groups:
  "groupby_sum (text_key ''Category'') ''Amount'' eleven_tied
     = [(''A'', 5), (''B'', 5), (''C'', 5), (''D'', 5), (''E'', 5), (''F'', 5), (''G'', 5),
        (''H'', 5), (''I'', 5), (''J'', 5), (''K'', 5)]"
  by (simp add: group_eval)

lemma three_days_groups:
  "groupby_sum (text_key ''Category'') ''Amount'' three_days = [(''A'', 40), (''B'', 20)]"
  by (simp add: group_eval)


section \<open>Claims about the top categories\<close>



text \<open>
  Claim C10, as stated: sorting ascending and taking the last 10 (the report's bar chart,
  line 51) and sorting descending and taking the first 10 (page chart and detail table)
  select the same categories, one sequence the reverse of the other, also when sums are
  tied. With eleven categories of equal sum the table lists A to J and the chart B to K.
\<close>

theorem top_ten_two_ways_counterexample:
  "top_categories eleven_tied ''Category'' ''Amount''
     = Inr [(''A'', 5), (''B'', 5), (''C'', 5), (''D'', 5), (''E'', 5), (''F'', 5), (''G'', 5),
            (''H'', 5), (''I'', 5), (''J'', 5)]
   \<and> create_top_categories_chart eleven_tied ''Category'' ''Amount''
     = Inr (TopCategories
             [(''B'', 5), (''C'', 5), (''D'', 5), (''E'', 5), (''F'', 5), (''G'', 5), (''H'', 5),
              (''I'', 5), (''J'', 5), (''K'', 5)])"
  by (simp add: top_categories_def create_top_categories_chart_def numeric_def col_def
      cell_at_def eleven_tied_groups sort_values_def head_def tail_def)

text \<open>
  Claim C10, amended: the two computations give the same sums, one sequence the reverse of
  the other, for every frame; and when no two categories have the same sum they select the
  same categories with the same sums, one sequence the reverse of the other.
\<close>

theorem top_ten_two_ways:
  assumes "top_categories df c a = Inr tc"
    and "create_top_categories_chart df c a = Inr (TopCategories ch)"
  shows "map snd tc = rev (map snd ch)
       \<and> (distinct (map snd (groupby_sum (text_key c) a df)) \<longrightarrow> tc = rev ch)"
proof -
  let ?g = "groupby_sum (text_key c) a df"
  have tc: "tc = head 10 (sort_values False ?g)"
    using assms(1) by (simp add: top_categories_def split: if_splits)
  have ch: "rev ch = head 10 (rev (sort_values True ?g))"
    using chart_InrD [OF assms(2)] by (simp add: head_rev_tail)
  have "map snd tc = head 10 (map snd (sort_values False ?g))"
    by (simp add: tc head_def take_map)
  also have "\<dots> = head 10 (map snd (rev (sort_values True ?g)))"
    by (simp add: sort_values_sums rev_map)
  also have "\<dots> = map snd (rev ch)"
    by (simp add: ch head_def take_map)
  finally have sums: "map snd tc = rev (map snd ch)" by (simp add: rev_map)
  have "tc = rev ch" if "distinct (map snd ?g)"
    using sort_values_distinct_sums [OF that] by (simp add: tc ch)
  with sums show ?thesis by simp
qed

theorem top_ten_two_ways_witness:
  "top_categories three_days ''Category'' ''Amount'' = Inr [(''A'', 40), (''B'', 20)]
   \<and> create_top_categories_chart three_days ''Category'' ''Amount''
       = Inr (TopCategories [(''B'', 20), (''A'', 40)])
   \<and> distinct (map snd (groupby_sum (text_key ''Category'') ''Amount'' three_days))
   \<and> [(''A'', 40 :: rat), (''B'', 20)] = rev [(''B'', 20), (''A'', 40)]"
proof -
  have a: "top_categories three_days ''Category'' ''Amount'' = Inr [(''A'', 40), (''B'', 20)]"
    by (simp add: top_categories_def numeric_def col_def cell_at_def three_days_groups
        sort_values_def head_def)
  have b: "create_top_categories_chart three_days ''Category'' ''Amount''
       = Inr (TopCategories [(''B'', 20), (''A'', 40)])"
    by (simp add: create_top_categories_chart_def numeric_def col_def cell_at_def
        three_days_groups sort_values_def tail_def)
  have c: "distinct (map snd (groupby_sum (text_key ''Category'') ''Amount'' three_days))"
    by (simp add: three_days_groups)
  from top_ten_two_ways [OF a b] a b c show ?thesis by simp
qed

section \<open>Claims about the detail table\<close>












section \<open>Claims about the report\<close>






















end
